theory Spec2Isabelle
  imports Complex_Main
begin

section \<open>Plain JavaScript objects\<close>

text \<open>
  A plain object is an association list from property names to values, in the order in
  which the properties were created; no name occurs twice.  \<open>acc[column] = v\<close> overwrites the
  value of a property that exists and leaves it where it is, and creates a property that does not
  exist after all the others.  \<open>obj[column]\<close> is \<open>undefined\<close>, here \<open>None\<close>, for a name the
  object does not have.
\<close>

type_synonym 'v js_object = "(string \<times> 'v) list"

definition empty_object :: "'v js_object" where
  "empty_object = []"

fun obj_set :: "'v js_object \<Rightarrow> string \<Rightarrow> 'v \<Rightarrow> 'v js_object" where
  "obj_set [] k v = [(k, v)]"
| "obj_set (p # ps) k v = (if fst p = k then (k, v) # ps else p # obj_set ps k v)"

definition obj_get :: "'v js_object \<Rightarrow> string \<Rightarrow> 'v option" where
  "obj_get obj k = map_of obj k"

text \<open>
  \<open>Object.keys\<close> does not list the property names in creation order alone: the names that are
  array indices (the canonical decimal numerals of the integers from 0 to \<open>2^32 - 2\<close>) come first,
  in ascending numeric order, and the other names follow in creation order.
\<close>

definition is_digit :: "char \<Rightarrow> bool" where
  "is_digit c = (c \<in> set ''0123456789'')"

definition decimal :: "string \<Rightarrow> int" where
  "decimal s = foldl (\<lambda>n c. 10 * n + (of_char c - 48)) 0 s"

definition array_index :: "string \<Rightarrow> int option" where
  "array_index s =
     (if s \<noteq> [] \<and> list_all is_digit s \<and> (s = ''0'' \<or> hd s \<noteq> CHR ''0'')
         \<and> decimal s < 2 ^ 32 - 1
      then Some (decimal s) else None)"

definition is_array_index :: "string \<Rightarrow> bool" where
  "is_array_index s = (array_index s \<noteq> None)"

definition index_value :: "string \<Rightarrow> int" where
  "index_value s = (case array_index s of Some n \<Rightarrow> n | None \<Rightarrow> 0)"

definition own_property_order :: "string list \<Rightarrow> string list" where
  "own_property_order ks =
     sort_key index_value (filter is_array_index ks)
     @ filter (\<lambda>k. \<not> is_array_index k) ks"

definition Object_keys :: "'v js_object \<Rightarrow> string list" where
  "Object_keys obj = own_property_order (map fst obj)"

text \<open>\<open>Array.prototype.includes\<close> on an array of strings.\<close>

definition array_includes :: "'a list \<Rightarrow> 'a \<Rightarrow> bool" where
  "array_includes xs x = (x \<in> set xs)"

text \<open>
  \<open>Array.prototype.reduce\<close> with an initial value: a left fold.  A callback that throws ends
  the fold with its error.
\<close>

fun reduce :: "('b \<Rightarrow> 'a \<Rightarrow> 'e + 'b) \<Rightarrow> 'a list \<Rightarrow> 'b \<Rightarrow> 'e + 'b" where
  "reduce f [] acc = Inr acc"
| "reduce f (x # xs) acc =
     (case f acc x of Inl e \<Rightarrow> Inl e | Inr acc' \<Rightarrow> reduce f xs acc')"

section \<open>The query builder's data\<close>

text \<open>
  A column descriptor carries the column's storage name beside other metadata; a table carries
  its column mapping, from logical column identifiers to descriptors, which the query builder's
  \<open>getTableColumns\<close> returns.  \<open>sql.raw\<close> wraps a string into an SQL fragment.
\<close>

record Column =
  name :: string

record 'c Table =
  Columns :: "'c js_object"

definition getTableColumns :: "'c Table \<Rightarrow> 'c js_object" where
  "getTableColumns table = Columns table"

datatype SQL = Raw string

definition sql_raw :: "string \<Rightarrow> SQL" where
  "sql_raw s = Raw s"

datatype js_error = TypeError | Error string


section \<open>buildConflictUpdateColumns\<close>

text \<open>
  The callback of the fold: it reads the descriptor of \<open>column\<close>, which is a \<open>TypeError\<close> when
  the mapping has no such property, and binds \<open>column\<close> to \<open>excluded.<name>\<close> in the
  accumulator.
\<close>

definition set_excluded ::
  "'m Column_scheme js_object \<Rightarrow> SQL js_object \<Rightarrow> string \<Rightarrow> js_error + SQL js_object" where
  "set_excluded allColumns acc column =
     (case obj_get allColumns column of
        None \<Rightarrow> Inl TypeError
      | Some col \<Rightarrow>
          (let colName = name col
           in Inr (obj_set acc column (sql_raw (''excluded.'' @ colName)))))"

definition buildConflictUpdateColumns ::
  "'m Column_scheme Table \<Rightarrow> string list \<Rightarrow> js_error + SQL js_object" where
  "buildConflictUpdateColumns table excludeColumns =
     (let allColumns = getTableColumns table;
          columnsToUpdate =
            filter (\<lambda>column. \<not> array_includes excludeColumns column) (Object_keys allColumns)
      in reduce (set_excluded allColumns) columnsToUpdate empty_object)"

section \<open>buildConflictUpdateColumns on a store\<close>

text \<open>
  The same function with its objects in a store, to follow what it allocates and what it
  writes.  A store is the list of the objects allocated so far and an address is a position
  in it; \<open>alloc\<close> puts the new object at the end.  The store holds tables, which refer to
  their column mappings, column mappings, arrays of strings, and objects whose values are
  SQL fragments.  Reading through an address that holds another kind of object than the one
  expected is a \<open>TypeError\<close>.
\<close>

type_synonym addr = nat

datatype 'c cell =
    TableCell addr
  | ColumnsCell "'c js_object"
  | ArrayCell "string list"
  | ObjectCell "SQL js_object"

type_synonym 'c heap = "'c cell list"

definition deref :: "'c heap \<Rightarrow> addr \<Rightarrow> 'c cell option" where
  "deref h a = (if a < length h then Some (h ! a) else None)"

definition alloc :: "'c heap \<Rightarrow> 'c cell \<Rightarrow> addr \<times> 'c heap" where
  "alloc h c = (length h, h @ [c])"

definition getTableColumns_heap :: "'c heap \<Rightarrow> addr \<Rightarrow> js_error + addr" where
  "getTableColumns_heap h table =
     (case deref h table of Some (TableCell cols) \<Rightarrow> Inr cols | _ \<Rightarrow> Inl TypeError)"

text \<open>
  The callback receives the accumulator as a reference: \<open>acc[column] = ...\<close> writes into the
  object at \<open>acc\<close>, and \<open>return acc\<close> returns the same reference.  \<open>{}\<close>, the initial value of
  the fold, is a new object.
\<close>

definition set_excluded_heap ::
  "addr \<Rightarrow> addr \<times> 'm Column_scheme heap \<Rightarrow> string \<Rightarrow> js_error + addr \<times> 'm Column_scheme heap" where
  "set_excluded_heap allColumns s column =
     (case s of (acc, h) \<Rightarrow>
        (case deref h allColumns of
           Some (ColumnsCell cols) \<Rightarrow>
             (case obj_get cols column of
                None \<Rightarrow> Inl TypeError
              | Some col \<Rightarrow>
                  (let colName = name col
                   in case deref h acc of
                        Some (ObjectCell obj) \<Rightarrow>
                          Inr (acc, h[acc := ObjectCell
                                 (obj_set obj column (sql_raw (''excluded.'' @ colName)))])
                      | _ \<Rightarrow> Inl TypeError))
         | _ \<Rightarrow> Inl TypeError))"

definition buildConflictUpdateColumns_heap ::
  "'m Column_scheme heap \<Rightarrow> addr \<Rightarrow> addr \<Rightarrow> js_error + addr \<times> 'm Column_scheme heap" where
  "buildConflictUpdateColumns_heap h table excludeColumns =
     (case getTableColumns_heap h table of
        Inl e \<Rightarrow> Inl e
      | Inr allColumns \<Rightarrow>
          (case deref h allColumns of
             Some (ColumnsCell cols) \<Rightarrow>
               (case deref h excludeColumns of
                  Some (ArrayCell ex) \<Rightarrow>
                    (let columnsToUpdate =
                           filter (\<lambda>column. \<not> array_includes ex column) (Object_keys cols)
                     in reduce (set_excluded_heap allColumns) columnsToUpdate
                          (alloc h (ObjectCell empty_object)))
                | _ \<Rightarrow> Inl TypeError)
           | _ \<Rightarrow> Inl TypeError))"

section \<open>upsertRecord\<close>

text \<open>
  The database client is the caller's: \<open>db.insert(table)\<close> starts an insert statement,
  \<open>values\<close>, \<open>onConflictDoUpdate\<close> and \<open>returning\<close> extend it, each of which may throw, and
  awaiting the statement runs it against the database, whose state is \<open>'w\<close>, and gives the
  rows or an error.  The configuration of \<open>onConflictDoUpdate\<close> has the fields \<open>target\<close> and
  \<open>set\<close>.
\<close>

record 'tg OnConflictConfig =
  target :: 'tg
  set' :: "SQL js_object"

record ('c, 'd, 'tg, 'q, 'r, 'w) Db =
  insert' :: "'c Table \<Rightarrow> js_error + 'q"
  values' :: "'q \<Rightarrow> 'd \<Rightarrow> js_error + 'q"
  onConflictDoUpdate :: "'q \<Rightarrow> 'tg OnConflictConfig \<Rightarrow> js_error + 'q"
  returning :: "'q \<Rightarrow> js_error + 'q"
  await :: "'q \<Rightarrow> 'w \<Rightarrow> (js_error + 'r) \<times> 'w"

text \<open>
  \<open>excludeColumns\<close> is optional: \<open>None\<close> is the omitted argument, which the default \<open>[]\<close>
  replaces.  The arguments of \<open>onConflictDoUpdate\<close> are evaluated after \<open>values\<close> has returned
  and before \<open>onConflictDoUpdate\<close> is called.  The function has no \<open>try\<close>: an error of any step
  ends it, with the database as it was.
\<close>

definition upsertRecord ::
  "('m Column_scheme, 'd, 'tg, 'q, 'r, 'w) Db \<Rightarrow> 'm Column_scheme Table \<Rightarrow> 'd \<Rightarrow> 'tg
     \<Rightarrow> string list option \<Rightarrow> 'w \<Rightarrow> (js_error + 'r) \<times> 'w" where
  "upsertRecord db table data conflictColumns excludeColumns_arg w =
     (let excludeColumns = (case excludeColumns_arg of None \<Rightarrow> [] | Some xs \<Rightarrow> xs)
      in case insert' db table of
           Inl e \<Rightarrow> (Inl e, w)
         | Inr q1 \<Rightarrow>
        (case values' db q1 data of
           Inl e \<Rightarrow> (Inl e, w)
         | Inr q2 \<Rightarrow>
        (case buildConflictUpdateColumns table excludeColumns of
           Inl e \<Rightarrow> (Inl e, w)
         | Inr update_set \<Rightarrow>
        (case onConflictDoUpdate db q2 \<lparr>target = conflictColumns, set' = update_set\<rparr> of
           Inl e \<Rightarrow> (Inl e, w)
         | Inr q3 \<Rightarrow>
        (case returning db q3 of
           Inl e \<Rightarrow> (Inl e, w)
         | Inr q4 \<Rightarrow> await db q4 w)))))"

section \<open>takeFirstOrNull and takeFirstOrThrow\<close>

text \<open>
  The functions are generic in the element type, and \<open>takeFirstOrThrow\<close> tests its first
  element for truth, so the elements are JavaScript values.  A number is a finite real (both
  zeros are \<open>Finite 0\<close>), an infinity or \<open>NaN\<close>; an object is its address.  \<open>ToBoolean\<close> is the
  language's conversion: \<open>undefined\<close>, \<open>null\<close>, \<open>false\<close>, the zeros, \<open>NaN\<close>, \<open>0n\<close> and the empty
  string are false, every other value is true.
\<close>

datatype js_number = Finite real | NaN | PosInfinity | NegInfinity

datatype js_value =
    JSUndefined
  | JSNull
  | JSBoolean bool
  | JSNumber js_number
  | JSBigInt int
  | JSString string
  | JSSymbol string
  | JSObject nat

fun ToBoolean :: "js_value \<Rightarrow> bool" where
  "ToBoolean JSUndefined = False"
| "ToBoolean JSNull = False"
| "ToBoolean (JSBoolean b) = b"
| "ToBoolean (JSNumber n) = (n \<noteq> Finite 0 \<and> n \<noteq> NaN)"
| "ToBoolean (JSBigInt i) = (i \<noteq> 0)"
| "ToBoolean (JSString s) = (s \<noteq> [])"
| "ToBoolean (JSSymbol d) = True"
| "ToBoolean (JSObject a) = True"

definition takeFirstOrNull :: "js_value list \<Rightarrow> js_value" where
  "takeFirstOrNull values = (if length values > 0 then values ! 0 else JSNull)"

definition takeFirstOrThrow :: "js_value list \<Rightarrow> js_error + js_value" where
  "takeFirstOrThrow items =
     (let first = takeFirstOrNull items
      in if \<not> ToBoolean first then Inl (Error ''First item not found'') else Inr first)"

section \<open>Example data\<close>

text \<open>
  A table whose third column has the identifier \<open>updatedAt\<close> and the storage name
  \<open>updated_at\<close>, and a table two of whose identifiers are array indices, created out of
  numeric order and after an ordinary name.
\<close>

definition users :: "Column Table" where
  "users = \<lparr>Columns = [(''id'', \<lparr>name = ''id''\<rparr>), (''email'', \<lparr>name = ''email''\<rparr>),
                       (''updatedAt'', \<lparr>name = ''updated_at''\<rparr>)]\<rparr>"


text \<open>
  A store with the table \<open>users\<close> at address 0, its column mapping at 1, and the array
  \<open>["id"]\<close> at 2.
\<close>

definition example_heap :: "Column heap" where
  "example_heap = [TableCell 1, ColumnsCell (Columns users), ArrayCell [''id'']]"

text \<open>
  A client that records what it is asked: a statement is the list of the calls that built it,
  the database is the list of the statements run so far, and running a statement has the
  outcome given.
\<close>

datatype ('c, 'd, 'tg) call =
    Insert "'c Table"
  | Values 'd
  | OnConflictDoUpdate "'tg OnConflictConfig"
  | Returning

definition recording_db ::
  "js_error + 'r \<Rightarrow> ('c, 'd, 'tg, ('c, 'd, 'tg) call list, 'r, ('c, 'd, 'tg) call list list) Db" where
  "recording_db outcome =
     \<lparr>insert' = (\<lambda>t. Inr [Insert t]),
      values' = (\<lambda>q d. Inr (q @ [Values d])),
      onConflictDoUpdate = (\<lambda>q c. Inr (q @ [OnConflictDoUpdate c])),
      returning = (\<lambda>q. Inr (q @ [Returning])),
      await = (\<lambda>q w. (outcome, w @ [q]))\<rparr>"

text \<open>
  Two clients for a table of \<open>Column\<close> descriptors, rows that are pairs of an \<open>id\<close> and an
  \<open>email\<close>, and lists of identifiers as conflict targets: one whose statements fail when they
  are run, and one whose \<open>insert\<close> throws.
\<close>

type_synonym example_call = "(Column, int \<times> string, string list) call"

type_synonym example_db =
  "(Column, int \<times> string, string list, example_call list, (int \<times> string) list,
    example_call list list) Db"

definition refusing_db :: example_db where
  "refusing_db = recording_db (Inl (Error ''connection refused''))"

definition rejecting_db :: example_db where
  "rejecting_db =
     (recording_db (Inr [])) \<lparr>insert' := \<lambda>t. Inl (Error ''relation does not exist'')\<rparr>"

section \<open>The entry of one column\<close>


section \<open>Properties of the object model\<close>





lemma set_own_property_order: "set (own_property_order ks) = set ks"
  by (auto simp: own_property_order_def)




lemma reduce_set_excluded_ok:
  "set ks \<subseteq> fst ` set cols \<Longrightarrow> \<exists>r. reduce (set_excluded cols) ks acc = Inr r"
proof (induction ks arbitrary: acc)
  case Nil
  then show ?case by simp
next
  case (Cons k ks)
  then have "map_of cols k \<noteq> None" by (simp add: map_of_eq_None_iff)
  then obtain d where "map_of cols k = Some d" by blast
  with Cons show ?case by (simp add: set_excluded_def obj_get_def)
qed




lemma Object_keys_set: "set (Object_keys obj) = fst ` set obj"
  by (simp add: Object_keys_def set_own_property_order)






lemma Object_keys_users: "Object_keys (getTableColumns users) = [''id'', ''email'', ''updatedAt'']"
  by (simp add: users_def getTableColumns_def Object_keys_def own_property_order_def
        is_array_index_def array_index_def is_digit_def)









text \<open>
  Claim C5.  For every table and every exclusion list, whether or not its elements are
  identifiers of the table, the result is that of the list restricted to the table's
  identifiers, and it is never an error.
\<close>

theorem buildConflictUpdateColumns_ignores_unknown:
  "buildConflictUpdateColumns T E =
     buildConflictUpdateColumns T (filter (array_includes (Object_keys (getTableColumns T))) E)
   \<and> (\<exists>clause. buildConflictUpdateColumns T E = Inr clause)"
proof -
  let ?cols = "getTableColumns T"
  let ?E = "filter (array_includes (Object_keys ?cols)) E"
  have "filter (\<lambda>column. \<not> array_includes E column) (Object_keys ?cols)
      = filter (\<lambda>column. \<not> array_includes ?E column) (Object_keys ?cols)"
    by (rule filter_cong) (auto simp: array_includes_def)
  then have "buildConflictUpdateColumns T E = buildConflictUpdateColumns T ?E"
    by (simp add: buildConflictUpdateColumns_def Let_def)
  moreover have "set (filter (\<lambda>column. \<not> array_includes E column) (Object_keys ?cols))
      \<subseteq> fst ` set ?cols"
    by (auto simp: Object_keys_set)
  then have "\<exists>clause. buildConflictUpdateColumns T E = Inr clause"
    by (simp add: buildConflictUpdateColumns_def Let_def reduce_set_excluded_ok)
  ultimately show ?thesis by simp
qed

theorem buildConflictUpdateColumns_ignores_unknown_witness:
  "filter (array_includes (Object_keys (getTableColumns users))) [''id'', ''createdAt''] = [''id'']
   \<and> buildConflictUpdateColumns users [''id'', ''createdAt''] = buildConflictUpdateColumns users [''id'']
   \<and> (\<exists>clause. buildConflictUpdateColumns users [''id'', ''createdAt''] = Inr clause)"
proof -
  have f: "filter (array_includes (Object_keys (getTableColumns users))) [''id'', ''createdAt''] = [''id'']"
    by (simp add: array_includes_def Object_keys_users)
  note t = buildConflictUpdateColumns_ignores_unknown [of users "[''id'', ''createdAt'']", unfolded f]
  show ?thesis
    using f t[THEN conjunct1] t[THEN conjunct2] by (intro conjI)
qed



section \<open>Properties of upsertRecord\<close>

lemma buildConflictUpdateColumns_total:
  "\<exists>clause. buildConflictUpdateColumns T E = Inr clause"
proof -
  have "set (filter (\<lambda>column. \<not> array_includes E column) (Object_keys (getTableColumns T)))
      \<subseteq> fst ` set (getTableColumns T)"
    by (auto simp: Object_keys_set)
  then show ?thesis
    by (simp add: buildConflictUpdateColumns_def Let_def reduce_set_excluded_ok)
qed

lemma buildConflictUpdateColumns_users_all:
  "buildConflictUpdateColumns users [] =
     Inr [(''id'', Raw ''excluded.id''), (''email'', Raw ''excluded.email''),
          (''updatedAt'', Raw ''excluded.updated_at'')]"
  unfolding buildConflictUpdateColumns_def Let_def Object_keys_users
  by (simp add: array_includes_def set_excluded_def obj_get_def users_def getTableColumns_def
        empty_object_def sql_raw_def)



text \<open>
  Claim C7.  An error of any step of the client is the result of \<open>upsertRecord\<close>, unchanged,
  and the database is as the step left it; when every step of the statement's construction
  succeeds, the result is what running the statement gives, rows or error; and an error that
  \<open>upsertRecord\<close> returns is an error that a step of the client raised.
\<close>

theorem upsertRecord_propagates:
  "(insert' db table = Inl e
      \<longrightarrow> upsertRecord db table data conflictColumns excludeColumns w = (Inl e, w))
   \<and> (insert' db table = Inr q1 \<and> values' db q1 data = Inl e
      \<longrightarrow> upsertRecord db table data conflictColumns excludeColumns w = (Inl e, w))
   \<and> (insert' db table = Inr q1 \<and> values' db q1 data = Inr q2
       \<and> buildConflictUpdateColumns table (case excludeColumns of None \<Rightarrow> [] | Some xs \<Rightarrow> xs)
           = Inr update_set
       \<and> onConflictDoUpdate db q2 \<lparr>target = conflictColumns, set' = update_set\<rparr> = Inl e
      \<longrightarrow> upsertRecord db table data conflictColumns excludeColumns w = (Inl e, w))
   \<and> (insert' db table = Inr q1 \<and> values' db q1 data = Inr q2
       \<and> buildConflictUpdateColumns table (case excludeColumns of None \<Rightarrow> [] | Some xs \<Rightarrow> xs)
           = Inr update_set
       \<and> onConflictDoUpdate db q2 \<lparr>target = conflictColumns, set' = update_set\<rparr> = Inr q3
       \<and> returning db q3 = Inl e
      \<longrightarrow> upsertRecord db table data conflictColumns excludeColumns w = (Inl e, w))
   \<and> (insert' db table = Inr q1 \<and> values' db q1 data = Inr q2
       \<and> buildConflictUpdateColumns table (case excludeColumns of None \<Rightarrow> [] | Some xs \<Rightarrow> xs)
           = Inr update_set
       \<and> onConflictDoUpdate db q2 \<lparr>target = conflictColumns, set' = update_set\<rparr> = Inr q3
       \<and> returning db q3 = Inr q4
      \<longrightarrow> upsertRecord db table data conflictColumns excludeColumns w = await db q4 w)
   \<and> (upsertRecord db table data conflictColumns excludeColumns w = (Inl e, w')
      \<longrightarrow> (insert' db table = Inl e \<and> w' = w)
        \<or> (\<exists>p1. insert' db table = Inr p1
             \<and> ((values' db p1 data = Inl e \<and> w' = w)
               \<or> (\<exists>p2 s. values' db p1 data = Inr p2
                    \<and> buildConflictUpdateColumns table
                         (case excludeColumns of None \<Rightarrow> [] | Some xs \<Rightarrow> xs) = Inr s
                    \<and> ((onConflictDoUpdate db p2 \<lparr>target = conflictColumns, set' = s\<rparr> = Inl e
                         \<and> w' = w)
                      \<or> (\<exists>p3. onConflictDoUpdate db p2 \<lparr>target = conflictColumns, set' = s\<rparr>
                                  = Inr p3
                           \<and> ((returning db p3 = Inl e \<and> w' = w)
                             \<or> (\<exists>p4. returning db p3 = Inr p4
                                  \<and> await db p4 w = (Inl e, w')))))))))"
proof -
  obtain s where s:
    "buildConflictUpdateColumns table (case excludeColumns of None \<Rightarrow> [] | Some xs \<Rightarrow> xs) = Inr s"
    using buildConflictUpdateColumns_total by blast
  have fwd: "upsertRecord db table data conflictColumns excludeColumns w =
        (case insert' db table of
           Inl e \<Rightarrow> (Inl e, w)
         | Inr q1 \<Rightarrow>
        (case values' db q1 data of
           Inl e \<Rightarrow> (Inl e, w)
         | Inr q2 \<Rightarrow>
        (case onConflictDoUpdate db q2 \<lparr>target = conflictColumns, set' = s\<rparr> of
           Inl e \<Rightarrow> (Inl e, w)
         | Inr q3 \<Rightarrow>
        (case returning db q3 of
           Inl e \<Rightarrow> (Inl e, w)
         | Inr q4 \<Rightarrow> await db q4 w))))"
    using s by (simp add: upsertRecord_def split: sum.split)
  show ?thesis
    unfolding fwd s
    by (auto split: sum.splits)
qed


theorem upsertRecord_propagates_witness:
  "insert' refusing_db users = Inr [Insert users]
   \<and> values' refusing_db [Insert users] (1, ''a@x.com'')
     = Inr [Insert users, Values (1, ''a@x.com'')]
   \<and> upsertRecord refusing_db users (1, ''a@x.com'') [''id''] None []
     = (Inl (Error ''connection refused''),
        [[Insert users, Values (1, ''a@x.com''),
          OnConflictDoUpdate
            \<lparr>target = [''id''],
             set' = [(''id'', Raw ''excluded.id''), (''email'', Raw ''excluded.email''),
                     (''updatedAt'', Raw ''excluded.updated_at'')]\<rparr>,
          Returning]])
   \<and> insert' rejecting_db users = Inl (Error ''relation does not exist'')
   \<and> upsertRecord rejecting_db users (1, ''a@x.com'') [''id''] None []
     = (Inl (Error ''relation does not exist''), [])"
proof -
  let ?set = "[(''id'', Raw ''excluded.id''), (''email'', Raw ''excluded.email''),
              (''updatedAt'', Raw ''excluded.updated_at'')]"
  let ?q1 = "[Insert users] :: example_call list"
  let ?q2 = "?q1 @ [Values (1, ''a@x.com'')]"
  let ?q3 = "?q2 @ [OnConflictDoUpdate \<lparr>target = [''id''], set' = ?set\<rparr>]"
  let ?q4 = "?q3 @ [Returning]"
  have h1: "insert' refusing_db users = Inr [Insert users]"
    and h2: "values' refusing_db [Insert users] (1, ''a@x.com'')
               = Inr [Insert users, Values (1, ''a@x.com'')]"
    by (simp_all add: refusing_db_def recording_db_def)
  have h: "insert' refusing_db users = Inr ?q1
       \<and> values' refusing_db ?q1 (1, ''a@x.com'') = Inr ?q2
       \<and> buildConflictUpdateColumns users (case None of None \<Rightarrow> [] | Some xs \<Rightarrow> xs) = Inr ?set
       \<and> onConflictDoUpdate refusing_db ?q2 \<lparr>target = [''id''], set' = ?set\<rparr> = Inr ?q3
       \<and> returning refusing_db ?q3 = Inr ?q4"
    by (simp add: refusing_db_def recording_db_def buildConflictUpdateColumns_users_all)
  have "upsertRecord refusing_db users (1, ''a@x.com'') [''id''] None [] = await refusing_db ?q4 []"
    using upsertRecord_propagates
      [of refusing_db users "Error ''x''" "(1, ''a@x.com'')" "[''id'']" None "[]" ?q1 ?q2 ?set ?q3 ?q4 "[]",
       THEN conjunct2, THEN conjunct2, THEN conjunct2, THEN conjunct2, THEN conjunct1,
       THEN mp, OF h] .
  then have r: "upsertRecord refusing_db users (1, ''a@x.com'') [''id''] None []
      = (Inl (Error ''connection refused''), [?q4])"
    by (simp add: refusing_db_def recording_db_def)
  have b: "insert' rejecting_db users = Inl (Error ''relation does not exist'')"
    by (simp add: rejecting_db_def recording_db_def)
  have r': "upsertRecord rejecting_db users (1, ''a@x.com'') [''id''] None []
      = (Inl (Error ''relation does not exist''), [])"
    using upsertRecord_propagates
      [of rejecting_db users "Error ''relation does not exist''" "(1, ''a@x.com'')" "[''id'']" None "[]",
       THEN conjunct1, THEN mp, OF b] .
  show ?thesis
    using h1 h2 r b r' by simp
qed

section \<open>Properties of takeFirstOrNull and takeFirstOrThrow\<close>

text \<open>
  Claim C10.  \<open>takeFirstOrNull\<close> returns the element at index 0 of an array that has one, and
  \<open>null\<close> for the empty array.  It has a value for every array, and the value does not depend
  on the elements after the first.
\<close>

theorem takeFirstOrNull_first:
  "takeFirstOrNull [] = JSNull
   \<and> takeFirstOrNull (x # xs) = x
   \<and> (length items > 0 \<longrightarrow> takeFirstOrNull items = items ! 0)
   \<and> takeFirstOrNull (x # xs) = takeFirstOrNull (x # ys)"
  by (simp add: takeFirstOrNull_def)

theorem takeFirstOrNull_first_witness:
  "takeFirstOrNull [] = JSNull
   \<and> takeFirstOrNull [JSString ''a'', JSNull] = JSString ''a''
   \<and> length [JSString ''a'', JSNull] > 0
   \<and> takeFirstOrNull [JSString ''a'', JSNull] = [JSString ''a'', JSNull] ! 0
   \<and> takeFirstOrNull [JSString ''a'', JSNull] = takeFirstOrNull [JSString ''a'']"
proof -
  note t = takeFirstOrNull_first [of "JSString ''a''" "[JSNull]" "[JSString ''a'', JSNull]" "[]"]
  have l: "length [JSString ''a'', JSNull] > 0" by simp
  show ?thesis
    using t[THEN conjunct1] t[THEN conjunct2, THEN conjunct1] l
      t[THEN conjunct2, THEN conjunct2, THEN conjunct1, THEN mp, OF l]
      t[THEN conjunct2, THEN conjunct2, THEN conjunct2]
    by (intro conjI)
qed

text \<open>
  Claim C9.  \<open>takeFirstOrThrow\<close> throws \<open>First item not found\<close> for the empty array and for
  every array whose first element converts to false, such as \<open>0\<close>, the empty string, \<open>false\<close>
  and \<open>null\<close>, whatever follows; it returns the first element when that converts to true.
\<close>

theorem takeFirstOrThrow_falsy:
  "takeFirstOrThrow items =
     (case items of
        [] \<Rightarrow> Inl (Error ''First item not found'')
      | first # rest \<Rightarrow>
          if ToBoolean first then Inr first else Inl (Error ''First item not found''))
   \<and> takeFirstOrThrow (JSNumber (Finite 0) # rest) = Inl (Error ''First item not found'')
   \<and> takeFirstOrThrow (JSString '''' # rest) = Inl (Error ''First item not found'')
   \<and> takeFirstOrThrow (JSBoolean False # rest) = Inl (Error ''First item not found'')
   \<and> takeFirstOrThrow (JSNull # rest) = Inl (Error ''First item not found'')"
  by (simp add: takeFirstOrThrow_def takeFirstOrNull_def split: list.split)

theorem takeFirstOrThrow_falsy_witness:
  "takeFirstOrThrow [] = Inl (Error ''First item not found'')
   \<and> takeFirstOrThrow [JSNumber (Finite 0)] = Inl (Error ''First item not found'')
   \<and> takeFirstOrThrow [JSString ''''] = Inl (Error ''First item not found'')
   \<and> takeFirstOrThrow [JSBoolean False] = Inl (Error ''First item not found'')
   \<and> takeFirstOrThrow [JSNull] = Inl (Error ''First item not found'')
   \<and> takeFirstOrThrow [JSNumber (Finite 1), JSNull] = Inr (JSNumber (Finite 1))"
proof -
  note e = takeFirstOrThrow_falsy [of "[]" "[]", THEN conjunct1]
  note f = takeFirstOrThrow_falsy [of "[]" "[]", THEN conjunct2]
  note t = takeFirstOrThrow_falsy [of "[JSNumber (Finite 1), JSNull]" "[]", THEN conjunct1]
  have "takeFirstOrThrow [] = Inl (Error ''First item not found'')"
    using e by simp
  moreover have "takeFirstOrThrow [JSNumber (Finite 1), JSNull] = Inr (JSNumber (Finite 1))"
    using t by simp
  ultimately show ?thesis
    using f by simp
qed

section \<open>Properties of buildConflictUpdateColumns on a store\<close>

lemma reduce_set_excluded_heap:
  "deref h c = Some (ColumnsCell cols) \<Longrightarrow> deref h a = Some (ObjectCell acc) \<Longrightarrow>
   reduce (set_excluded_heap c) ks (a, h) =
     (case reduce (set_excluded cols) ks acc of
        Inl e \<Rightarrow> Inl e
      | Inr obj \<Rightarrow> Inr (a, h[a := ObjectCell obj]))"
proof (induction ks arbitrary: h acc)
  case Nil
  then have "h[a := ObjectCell acc] = h"
    by (simp add: deref_def list_update_same_conv split: if_splits)
  then show ?case by simp
next
  case (Cons k ks)
  show ?case
  proof (cases "obj_get cols k")
    case None
    with Cons.prems show ?thesis
      by (simp add: set_excluded_heap_def set_excluded_def)
  next
    case (Some col)
    let ?acc = "obj_set acc k (sql_raw (''excluded.'' @ name col))"
    let ?h = "h[a := ObjectCell ?acc]"
    from Cons.prems have ne: "a \<noteq> c" and lt: "a < length h"
      by (auto simp: deref_def split: if_splits)
    from Cons.prems ne have c: "deref ?h c = Some (ColumnsCell cols)"
      by (simp add: deref_def split: if_splits)
    from lt have a: "deref ?h a = Some (ObjectCell ?acc)"
      by (simp add: deref_def)
    have step: "set_excluded_heap c (a, h) k = Inr (a, ?h)"
      using Cons.prems Some by (simp add: set_excluded_heap_def)
    have step': "set_excluded cols acc k = Inr ?acc"
      using Some by (simp add: set_excluded_def)
    show ?thesis
      using Cons.IH[OF c a] by (simp add: step step' split: sum.split)
  qed
qed

lemma buildConflictUpdateColumns_heap_eq:
  assumes "deref h table = Some (TableCell c)" and "deref h c = Some (ColumnsCell cols)"
    and "deref h excludeColumns = Some (ArrayCell ex)"
  shows "buildConflictUpdateColumns_heap h table excludeColumns =
           (case buildConflictUpdateColumns \<lparr>Columns = cols\<rparr> ex of
              Inl e \<Rightarrow> Inl e
            | Inr clause \<Rightarrow> Inr (length h, h @ [ObjectCell clause]))"
proof -
  let ?h = "h @ [ObjectCell empty_object]"
  from assms(2) have "deref ?h c = Some (ColumnsCell cols)"
    by (simp add: deref_def nth_append split: if_splits)
  moreover have "deref ?h (length h) = Some (ObjectCell empty_object)"
    by (simp add: deref_def)
  ultimately have "reduce (set_excluded_heap c) ks (length h, ?h) =
     (case reduce (set_excluded cols) ks empty_object of
        Inl e \<Rightarrow> Inl e
      | Inr obj \<Rightarrow> Inr (length h, ?h[length h := ObjectCell obj]))" for ks
    by (rule reduce_set_excluded_heap)
  then show ?thesis
    using assms
    by (simp add: buildConflictUpdateColumns_heap_def getTableColumns_heap_def alloc_def
          buildConflictUpdateColumns_def getTableColumns_def Let_def split: sum.split)
qed


lemma buildConflictUpdateColumns_users_id:
  "buildConflictUpdateColumns users [''id''] =
     Inr [(''email'', Raw ''excluded.email''), (''updatedAt'', Raw ''excluded.updated_at'')]"
  unfolding buildConflictUpdateColumns_def Let_def Object_keys_users
  by (simp add: array_includes_def set_excluded_def obj_get_def users_def getTableColumns_def
        empty_object_def sql_raw_def)

text \<open>
  Claim C8.  Called on a store that holds the table, its column mapping and the exclusion
  array, \<open>buildConflictUpdateColumns\<close> returns the address of an object that the store did
  not have, whose content is the result computed from the content of its arguments alone, and
  leaves every object that the store had as it was.  A second call with the same arguments
  returns another new object with the same content, and leaves the first result as it was.
\<close>

theorem buildConflictUpdateColumns_heap_fresh:
  assumes "deref h table = Some (TableCell c)" and "deref h c = Some (ColumnsCell cols)"
    and "deref h excludeColumns = Some (ArrayCell ex)"
  shows "\<exists>clause h1 h2.
           buildConflictUpdateColumns \<lparr>Columns = cols\<rparr> ex = Inr clause
         \<and> buildConflictUpdateColumns_heap h table excludeColumns = Inr (length h, h1)
         \<and> buildConflictUpdateColumns_heap h1 table excludeColumns = Inr (length h1, h2)
         \<and> h1 = h @ [ObjectCell clause]
         \<and> h2 = h1 @ [ObjectCell clause]
         \<and> deref h (length h) = None
         \<and> deref h1 (length h1) = None
         \<and> take (length h) h1 = h
         \<and> take (length h1) h2 = h1
         \<and> length h \<noteq> length h1
         \<and> deref h2 (length h) = Some (ObjectCell clause)
         \<and> deref h2 (length h1) = Some (ObjectCell clause)"
proof -
  obtain clause where clause: "buildConflictUpdateColumns \<lparr>Columns = cols\<rparr> ex = Inr clause"
    using buildConflictUpdateColumns_total by blast
  let ?h1 = "h @ [ObjectCell clause]"
  let ?h2 = "?h1 @ [ObjectCell clause]"
  have first: "buildConflictUpdateColumns_heap h table excludeColumns = Inr (length h, ?h1)"
    using assms clause by (simp add: buildConflictUpdateColumns_heap_eq)
  have "deref ?h1 table = Some (TableCell c)" "deref ?h1 c = Some (ColumnsCell cols)"
    "deref ?h1 excludeColumns = Some (ArrayCell ex)"
    using assms by (simp_all add: deref_def nth_append split: if_splits)
  then have second: "buildConflictUpdateColumns_heap ?h1 table excludeColumns = Inr (length ?h1, ?h2)"
    using clause by (simp add: buildConflictUpdateColumns_heap_eq)
  have rest: "deref h (length h) = None" "deref ?h1 (length ?h1) = None"
    "take (length h) ?h1 = h" "take (length ?h1) ?h2 = ?h1" "length h \<noteq> length ?h1"
    "deref ?h2 (length h) = Some (ObjectCell clause)"
    "deref ?h2 (length ?h1) = Some (ObjectCell clause)"
    by (simp_all add: deref_def nth_append)
  show ?thesis
    using clause first second rest
    by (intro exI[of _ clause] exI[of _ ?h1] exI[of _ ?h2] conjI refl)
qed

theorem buildConflictUpdateColumns_heap_fresh_witness:
  "deref example_heap 0 = Some (TableCell 1)
   \<and> deref example_heap 1 = Some (ColumnsCell (Columns users))
   \<and> deref example_heap 2 = Some (ArrayCell [''id''])
   \<and> buildConflictUpdateColumns_heap example_heap 0 2 =
       Inr (3, example_heap
               @ [ObjectCell [(''email'', Raw ''excluded.email''),
                              (''updatedAt'', Raw ''excluded.updated_at'')]])
   \<and> buildConflictUpdateColumns_heap
         (example_heap @ [ObjectCell [(''email'', Raw ''excluded.email''),
                                      (''updatedAt'', Raw ''excluded.updated_at'')]]) 0 2 =
       Inr (4, example_heap
               @ [ObjectCell [(''email'', Raw ''excluded.email''),
                              (''updatedAt'', Raw ''excluded.updated_at'')],
                  ObjectCell [(''email'', Raw ''excluded.email''),
                              (''updatedAt'', Raw ''excluded.updated_at'')]])"
proof -
  have a: "deref example_heap 0 = Some (TableCell 1)"
    and b: "deref example_heap 1 = Some (ColumnsCell (Columns users))"
    and c: "deref example_heap 2 = Some (ArrayCell [''id''])"
    and l: "length example_heap = 3"
    by (simp_all add: example_heap_def deref_def)
  from buildConflictUpdateColumns_heap_fresh [OF a b c]
  obtain clause h1 h2 where
    r: "buildConflictUpdateColumns \<lparr>Columns = Columns users\<rparr> [''id''] = Inr clause"
    and f: "buildConflictUpdateColumns_heap example_heap 0 2 = Inr (length example_heap, h1)"
    and s: "buildConflictUpdateColumns_heap h1 0 2 = Inr (length h1, h2)"
    and h1: "h1 = example_heap @ [ObjectCell clause]"
    and h2: "h2 = h1 @ [ObjectCell clause]"
    by (elim exE conjE)
  have "\<lparr>Columns = Columns users\<rparr> = users" by simp
  with r have cl: "clause = [(''email'', Raw ''excluded.email''),
                              (''updatedAt'', Raw ''excluded.updated_at'')]"
    by (simp add: buildConflictUpdateColumns_users_id)
  from f s show ?thesis
    unfolding h2 h1 cl using a b c l by simp
qed

end
